theory Spec2Isabelle
  imports Main
begin

section \<open>Data of sites.py\<close>

text \<open>
  An entry of the \<open>servers\<close> table is a dictionary with the keys \<open>url\<close> and
  \<open>code\<close>, and with \<open>redirect\<close> or \<open>contents\<close> where the expected code needs
  it. A key that an entry does not have is \<open>None\<close>; subscripting it raises KeyError.
\<close>

record server =
  url :: string
  code :: int
  redirect :: "string option"
  contents :: "string option"

text \<open>
  What the program reads of a \<open>requests.Response\<close>: the status code, the headers
  (subscripting a header that is not there raises KeyError) and the body bytes.
\<close>

record response =
  status_code :: int
  headers :: "string \<rightharpoonup> string"
  content :: string

text \<open>
  The exceptions the program meets. \<open>RequestException\<close> is the class the loop over
  the servers catches; \<open>KeyError k\<close> is a failed subscript with key \<open>k\<close>;
  \<open>Exception\<close> is the one line 95 raises itself; \<open>OtherError\<close> stands for every
  other class (socket and TLS errors, ValueError of strptime, UnicodeDecodeError,
  re.error, errors of the S3 and Twilio clients). The string is what \<open>str(e)\<close> gives.
\<close>

datatype error =
    RequestException string
  | KeyError string
  | Exception string
  | OtherError string

text \<open>The dictionary the program stores in S3 (lines 179 to 184) and reads back.\<close>

record data =
  lastRun :: int
  version :: int
  results :: int
  errors_key :: "string list"

record args =
  ci :: bool
  verbose :: bool
  delete :: bool

text \<open>
  A call that talks to the outside takes the world and returns its result, or the
  exception it raised, with the world after the call.
\<close>

type_synonym ('a, 'w) io = "'w \<Rightarrow> (error + 'a) \<times> 'w"

text \<open>
  The libraries and services the program calls, none of them part of the repository:
  requests, ssl and socket, datetime and time, re, bytes.decode, os.environ, s3data
  and the Twilio client. \<open>getpeercert\<close> stands for lines 30 to 38 (default context,
  wrapped socket, timeout of 3 seconds, connect to port 443, the peer certificate).
  \<open>strptime\<close> returns a datetime as microseconds since some fixed instant, as
  \<open>utcnow\<close> does; \<open>time_time\<close> is \<open>int(time.time())\<close>; \<open>fromtimestamp\<close> takes seconds
  and raises where the library does (a time out of its range). \<open>requests_post\<close> takes the
  URL and the text of the JSON body. The S3 calls take the three credentials and the
  key, the Twilio call takes the two credentials, then body, sender and receiver.
\<close>

record 'w env =
  requests_head :: "string \<Rightarrow> (response, 'w) io"
  requests_get :: "string \<Rightarrow> (response, 'w) io"
  requests_post :: "string \<Rightarrow> string \<Rightarrow> (response, 'w) io"
  bytes_decode :: "string \<Rightarrow> error + string"
  re_findall :: "string \<Rightarrow> string \<Rightarrow> error + string list"
  getpeercert :: "string \<Rightarrow> (string \<rightharpoonup> string, 'w) io"
  strptime :: "string \<Rightarrow> string \<Rightarrow> error + int"
  utcnow :: "'w \<Rightarrow> int \<times> 'w"
  time_time :: "'w \<Rightarrow> int \<times> 'w"
  fromtimestamp :: "int \<Rightarrow> error + int"
  environ :: "string \<rightharpoonup> string"
  s3_delete :: "string \<times> string \<times> string \<Rightarrow> string \<Rightarrow> (unit, 'w) io"
  s3_get :: "string \<times> string \<times> string \<Rightarrow> string \<Rightarrow> (data option, 'w) io"
  s3_put :: "string \<times> string \<times> string \<Rightarrow> string \<Rightarrow> data \<Rightarrow> (unit, 'w) io"
  messages_create :: "string \<times> string \<Rightarrow> string \<Rightarrow> string \<Rightarrow> string \<Rightarrow> (string, 'w) io"

section \<open>Sequencing and formatting\<close>

definition return_io :: "'a \<Rightarrow> ('a, 'w) io" where
  "return_io a w = (Inr a, w)"

definition raise_io :: "error \<Rightarrow> ('a, 'w) io" where
  "raise_io e w = (Inl e, w)"

definition bind_io :: "('a, 'w) io \<Rightarrow> ('a \<Rightarrow> ('b, 'w) io) \<Rightarrow> ('b, 'w) io" where
  "bind_io m f w = (case m w of (Inl e, w') \<Rightarrow> (Inl e, w') | (Inr a, w') \<Rightarrow> f a w')"

text \<open>\<open>d[k]\<close> on a dictionary with string keys.\<close>

definition subscript :: "(string \<rightharpoonup> 'v) \<Rightarrow> string \<Rightarrow> ('v, 'w) io" where
  "subscript d k = (case d k of None \<Rightarrow> raise_io (KeyError k) | Some v \<Rightarrow> return_io v)"

fun str_nat :: "nat \<Rightarrow> string" where
  "str_nat n = (if n < 10 then [''0123456789'' ! n] else str_nat (n div 10) @ [''0123456789'' ! (n mod 10)])"

declare str_nat.simps [simp del]

definition str_int :: "int \<Rightarrow> string" where
  "str_int i = (if i < 0 then CHR ''-'' # str_nat (nat (- i)) else str_nat (nat i))"

section \<open>Certificate expiry\<close>

definition ssl_date_fmt :: string where
  "ssl_date_fmt = ''%b %d %H:%M:%S %Y %Z''"

definition ssl_expiry_datetime :: "'w env \<Rightarrow> string \<Rightarrow> (int, 'w) io" where
  "ssl_expiry_datetime E hostname =
     bind_io (getpeercert E hostname) (\<lambda>ssl_info.
     bind_io (subscript ssl_info ''notAfter'') (\<lambda>notAfter w.
       (strptime E notAfter ssl_date_fmt, w)))"

definition ssl_valid_time_remaining :: "'w env \<Rightarrow> string \<Rightarrow> (int, 'w) io" where
  "ssl_valid_time_remaining E hostname =
     bind_io (ssl_expiry_datetime E hostname) (\<lambda>expires w.
       case utcnow E w of (now, w') \<Rightarrow> (Inr (expires - now), w'))"

text \<open>
  A timedelta is a whole number of microseconds; \<open>timedelta(days=d)\<close> is \<open>d\<close> days
  and the attribute \<open>days\<close> is the floor of the quotient by one day.
\<close>

definition timedelta :: "int \<Rightarrow> int" where
  "timedelta d = d * 86400000000"

definition days :: "int \<Rightarrow> int" where
  "days t = t div 86400000000"

section \<open>check_sites\<close>

definition servers :: "server list" where
  "servers =
    [\<lparr>url = ''http://www.readthedocs.org/'', code = 302, redirect = Some ''http://readthedocs.org/'', contents = None\<rparr>,
     \<lparr>url = ''http://readthedocs.org/'', code = 302, redirect = Some ''https://readthedocs.org/'', contents = None\<rparr>,
     \<lparr>url = ''https://readthedocs.org/'', code = 200, redirect = None, contents = Some ''Technical documentation lives here''\<rparr>,
     \<lparr>url = ''http://www.python.org/'', code = 301, redirect = Some ''https://www.python.org/'', contents = None\<rparr>,
     \<lparr>url = ''http://python.org/'', code = 301, redirect = Some ''https://python.org/'', contents = None\<rparr>,
     \<lparr>url = ''https://www.python.org/'', code = 200, redirect = None, contents = Some ''official home of the Python Programming Language''\<rparr>,
     \<lparr>url = ''http://thunderbird.net/'', code = 301, redirect = Some ''https://thunderbird.net/'', contents = None\<rparr>,
     \<lparr>url = ''http://www.thunderbird.net/'', code = 301, redirect = Some ''https://www.thunderbird.net/'', contents = None\<rparr>,
     \<lparr>url = ''https://www.thunderbird.net/en-US/'', code = 200, redirect = None, contents = Some ''Software made to make email easier''\<rparr>]"

definition ssl_hosts :: "string list" where
  "ssl_hosts = [''readthedocs.org'', ''www.python.org'', ''www.thunderbird.net'']"

text \<open>
  How one pass of a loop body ends: it falls through to the next element, it leaves
  the loop with \<open>break\<close>, or it raises. The list is \<open>errors\<close> as the pass leaves it.
\<close>

datatype flow = Next "string list" | Break "string list" | Raise error

text \<open>
  Lines 78 to 100, the body of the loop over \<open>servers\<close>, for the element \<open>s\<close>. In the
  comparison of line 89 the header is read before \<open>s['redirect']\<close>; in the call of
  line 97 \<open>s['contents']\<close> is read before the body is decoded. The message of line 95
  shows the code of the HEAD response \<open>r\<close>, as the source does.
\<close>

definition server_body :: "'w env \<Rightarrow> server \<Rightarrow> string list \<Rightarrow> 'w \<Rightarrow> flow \<times> 'w" where
  "server_body E s errors w =
    (case requests_head E (url s) w of
      (Inl (RequestException e), w1) \<Rightarrow>
        (Break (errors @ [''Fail: '' @ url s @ '' exception '' @ e]), w1)
    | (Inl e, w1) \<Rightarrow> (Raise e, w1)
    | (Inr r, w1) \<Rightarrow>
        if status_code r \<noteq> code s then
          (Next (errors @ [''Fail: '' @ url s @ '' expected response code '' @ str_int (code s)
                           @ '' received '' @ str_int (status_code r)]), w1)
        else if status_code r = 301 \<or> status_code r = 302 then
          (case headers r ''Location'' of
            None \<Rightarrow> (Raise (KeyError ''Location''), w1)
          | Some location \<Rightarrow>
             (case redirect s of
               None \<Rightarrow> (Raise (KeyError ''redirect''), w1)
             | Some expected \<Rightarrow>
                 if location \<noteq> expected then
                   (Next (errors @ [''Fail: '' @ url s @ '' expected redirect '' @ expected
                                    @ '' received '' @ location]), w1)
                 else (Next errors, w1)))
        else if status_code r = 200 then
          (case requests_get E (url s) w1 of
            (Inl e, w2) \<Rightarrow> (Raise e, w2)
          | (Inr r2, w2) \<Rightarrow>
              if status_code r2 \<noteq> 200 then
                (Raise (Exception (''unexpected http response code '' @ str_int (status_code r)
                                   @ '' from get '' @ url s)), w2)
              else
                (case contents s of
                  None \<Rightarrow> (Raise (KeyError ''contents''), w2)
                | Some pattern \<Rightarrow>
                   (case bytes_decode E (content r2) of
                     Inl e \<Rightarrow> (Raise e, w2)
                   | Inr decoded \<Rightarrow>
                      (case re_findall E pattern decoded of
                        Inl e \<Rightarrow> (Raise e, w2)
                      | Inr matches \<Rightarrow>
                          if matches = [] then
                            (Next (errors @ [''Fail: '' @ url s @ '' expected contents '' @ pattern]), w2)
                          else (Next errors, w2)))))
        else (Next errors, w1))"

text \<open>The loop of line 74: \<open>break\<close> leaves it with the elements that remain unvisited.\<close>

fun servers_loop :: "'w env \<Rightarrow> server list \<Rightarrow> string list \<Rightarrow> (string list, 'w) io" where
  "servers_loop E [] errors w = (Inr errors, w)"
| "servers_loop E (s # rest) errors w =
    (case server_body E s errors w of
      (Next errors', w') \<Rightarrow> servers_loop E rest errors' w'
    | (Break errors', w') \<Rightarrow> (Inr errors', w')
    | (Raise e, w') \<Rightarrow> (Inl e, w'))"

text \<open>
  Lines 110 to 114, the body of the loop over \<open>ssl_hosts\<close>, for the host \<open>s\<close>.
  Nothing catches what \<open>ssl_valid_time_remaining\<close> raises.
\<close>

definition ssl_body :: "'w env \<Rightarrow> string \<Rightarrow> string list \<Rightarrow> (string list, 'w) io" where
  "ssl_body E s errors =
    bind_io (ssl_valid_time_remaining E s) (\<lambda>remaining.
      if remaining < timedelta 0 then
        return_io (errors @ [''Fail: SSL cert for '' @ s @ '' already expired!''])
      else if remaining < timedelta 3 then
        return_io (errors @ [''Fail: SSL cert for '' @ s @ '' expiring in '' @ str_int (days remaining)
                             @ '' days''])
      else return_io errors)"

fun ssl_loop :: "'w env \<Rightarrow> string list \<Rightarrow> string list \<Rightarrow> (string list, 'w) io" where
  "ssl_loop E [] errors w = (Inr errors, w)"
| "ssl_loop E (s # rest) errors w =
    (case ssl_body E s errors w of
      (Inr errors', w') \<Rightarrow> ssl_loop E rest errors' w'
    | (Inl e, w') \<Rightarrow> (Inl e, w'))"

text \<open>
  \<open>check_sites\<close> over any two tables, and over the tables the source writes into
  the function. Standard output is not modelled, so the \<open>verbose\<close> argument, which
  only prints, is left out.
\<close>

definition check_sites_of :: "'w env \<Rightarrow> server list \<Rightarrow> string list \<Rightarrow> (string list, 'w) io" where
  "check_sites_of E svs hosts =
     bind_io (servers_loop E svs []) (\<lambda>errors. ssl_loop E hosts errors)"

definition check_sites :: "'w env \<Rightarrow> (string list, 'w) io" where
  "check_sites E = check_sites_of E servers ssl_hosts"

text \<open>
  For stating the order of the result: the errors each element contributes, one list
  per element visited, each computed by its loop body from an empty list in the world
  the loop has reached. An element after a \<open>break\<close> or a raise contributes no list.
\<close>

fun per_server :: "'w env \<Rightarrow> server list \<Rightarrow> 'w \<Rightarrow> string list list" where
  "per_server E [] w = []"
| "per_server E (s # rest) w =
    (case server_body E s [] w of
      (Next es, w') \<Rightarrow> es # per_server E rest w'
    | (Break es, w') \<Rightarrow> [es]
    | (Raise e, w') \<Rightarrow> [])"

fun per_host :: "'w env \<Rightarrow> string list \<Rightarrow> 'w \<Rightarrow> string list list" where
  "per_host E [] w = []"
| "per_host E (s # rest) w =
    (case ssl_body E s [] w of
      (Inr es, w') \<Rightarrow> es # per_host E rest w'
    | (Inl e, w') \<Rightarrow> [])"

section \<open>Notifications and the main program\<close>

text \<open>
  The condition of line 188. \<open>last'\<close> is the source's \<open>last\<close>, what \<open>s3.get\<close>
  returned: \<open>None\<close> when nothing is stored, which is false as a condition, and
  otherwise the stored dictionary, which is true. \<open>errors\<close> as a condition is true
  when the list is not empty.
\<close>

definition should_notify :: "data option \<Rightarrow> string list \<Rightarrow> bool" where
  "should_notify last' errors =
     (last' = None \<or> errors \<noteq> [] \<or>
      (errors = [] \<and> (case last' of None \<Rightarrow> False | Some d \<Rightarrow> results d \<noteq> 0)))"

text \<open>Lines 190 to 196: the list \<open>msg\<close>, grown by \<open>append\<close>.\<close>

definition build_msg :: "int \<Rightarrow> string list \<Rightarrow> string list" where
  "build_msg rc errors =
     (if rc = 0 then [] @ [''Sitecheck PASS'']
      else foldl (\<lambda>msg e. msg @ [e]) ([] @ [''Sitecheck '' @ str_int rc @ '' Errors:'']) errors)"

fun send_sms_messages ::
  "'w env \<Rightarrow> string \<Rightarrow> string \<Rightarrow> string \<Rightarrow> string \<Rightarrow> string list \<Rightarrow> (unit, 'w) io" where
  "send_sms_messages E twilio_sid twilio_auth_token from_number to_number [] w = (Inr (), w)"
| "send_sms_messages E twilio_sid twilio_auth_token from_number to_number (m # messages) w =
    (case messages_create E (twilio_sid, twilio_auth_token) m from_number to_number w of
      (Inl e, w') \<Rightarrow> (Inl e, w')
    | (Inr message, w') \<Rightarrow>
        send_sms_messages E twilio_sid twilio_auth_token from_number to_number messages w')"

fun send_slack_messages :: "'w env \<Rightarrow> string \<Rightarrow> string list \<Rightarrow> (unit, 'w) io" where
  "send_slack_messages E slack_webhook_url [] w = (Inr (), w)"
| "send_slack_messages E slack_webhook_url (m # messages) w =
    (case requests_post E slack_webhook_url m w of
      (Inl e, w') \<Rightarrow> (Inl e, w')
    | (Inr req, w') \<Rightarrow> send_slack_messages E slack_webhook_url messages w')"

text \<open>
  Lines 161 to 212, the block under \<open>if args.ci\<close>. Standard output is not modelled,
  but the arguments of the print of lines 173 to 177 are evaluated when \<open>last\<close> is
  true: the two subscripts find their keys in every stored dictionary, and
  \<open>datetime.fromtimestamp(last['lastRun'])\<close> can raise, before anything is stored or
  sent.
\<close>

definition ci_mode :: "'w env \<Rightarrow> args \<Rightarrow> string list \<Rightarrow> int \<Rightarrow> (unit, 'w) io" where
  "ci_mode E a errors rc =
     bind_io (subscript (environ E) ''AWS_ACCESS_KEY_ID'') (\<lambda>key_id.
     bind_io (subscript (environ E) ''AWS_SECRET_ACCESS_KEY'') (\<lambda>secret.
     bind_io (subscript (environ E) ''S3DATA_BUCKET'') (\<lambda>bucket.
     let s3 = (key_id, secret, bucket); s3key = ''sitecheck-data'' in
     bind_io (if delete a then s3_delete E s3 s3key else return_io ()) (\<lambda>_.
     bind_io (s3_get E s3 s3key) (\<lambda>last'.
     bind_io (case last' of
                None \<Rightarrow> return_io ()
              | Some d \<Rightarrow> (case fromtimestamp E (lastRun d) of
                            Inl e \<Rightarrow> raise_io e
                          | Inr shown \<Rightarrow> return_io ())) (\<lambda>_.
     bind_io (\<lambda>w. case time_time E w of (t, w') \<Rightarrow> (Inr t, w')) (\<lambda>t.
     bind_io (s3_put E s3 s3key \<lparr>lastRun = t, version = 1, results = rc, errors_key = errors\<rparr>) (\<lambda>_.
     if should_notify last' errors then
       let msg = build_msg rc errors in
       bind_io (subscript (environ E) ''TWILIO_ACCOUNT_SID'') (\<lambda>sid.
       bind_io (subscript (environ E) ''TWILIO_AUTH_TOKEN'') (\<lambda>token.
       bind_io (subscript (environ E) ''TWILIO_FROM_NUMBER'') (\<lambda>from_number.
       bind_io (subscript (environ E) ''TWILIO_TO_NUMBER'') (\<lambda>to_number.
       bind_io (send_sms_messages E sid token from_number to_number msg) (\<lambda>_.
       bind_io (subscript (environ E) ''SLACK_WEBHOOK'') (\<lambda>webhook.
         send_slack_messages E webhook msg))))))
     else return_io ()))))))))"

text \<open>
  Lines 156 to 214. \<open>Inr rc\<close> is the program leaving through \<open>sys.exit(rc)\<close>;
  \<open>Inl e\<close> is the program ended by the exception \<open>e\<close> that nothing caught.
\<close>

definition main :: "'w env \<Rightarrow> args \<Rightarrow> (int, 'w) io" where
  "main E a =
     bind_io (check_sites E) (\<lambda>errors.
       let rc = int (length errors) in
       bind_io (if ci a then ci_mode E a errors rc else return_io ()) (\<lambda>_.
       return_io rc))"

section \<open>A simulated outside\<close>

text \<open>
  A concrete world to run the program in. The world is the list of calls made so far
  and the object stored in S3; \<open>outside\<close> fixes what the network, the clock and
  the process environment answer. \<open>literal_findall\<close> is \<open>re.findall\<close> for a pattern
  without metacharacters, \<open>sim_strptime\<close> knows two dates, in microseconds since
  1970, and \<open>sim_fromtimestamp\<close> accepts the seconds of the years 1970 to 9999.
\<close>

record sim_world =
  calls :: "string list"
  s3_object :: "data option"

record outside =
  head_reply :: "string \<Rightarrow> error + response"
  get_reply :: "string \<Rightarrow> error + response"
  cert_reply :: "string \<Rightarrow> error + (string \<rightharpoonup> string)"
  clock :: int
  variables :: "string \<rightharpoonup> string"

fun literal_findall :: "string \<Rightarrow> string \<Rightarrow> string list" where
  "literal_findall pat [] = (if pat = [] then [[]] else [])"
| "literal_findall pat (c # cs) =
    (if pat = [] then [] # literal_findall pat cs
     else if take (length pat) (c # cs) = pat then pat # literal_findall pat (drop (length pat - 1) cs)
     else literal_findall pat cs)"

definition sim_strptime :: "string \<Rightarrow> string \<Rightarrow> error + int" where
  "sim_strptime date_string fmt =
     (if fmt = ''%b %d %H:%M:%S %Y %Z'' \<and> date_string = ''Jan  1 00:00:00 2030 GMT''
      then Inr 1893456000000000
      else if fmt = ''%b %d %H:%M:%S %Y %Z'' \<and> date_string = ''Jan  3 00:00:00 2029 GMT''
      then Inr 1862092800000000
      else Inl (OtherError ''ValueError''))"

definition sim_fromtimestamp :: "int \<Rightarrow> error + int" where
  "sim_fromtimestamp t =
     (if 0 \<le> t \<and> t < 253402300800 then Inr (t * 1000000)
      else Inl (OtherError ''year is out of range''))"

definition called :: "string \<Rightarrow> sim_world \<Rightarrow> sim_world" where
  "called c w = w\<lparr>calls := calls w @ [c]\<rparr>"

definition sim_env :: "outside \<Rightarrow> sim_world env" where
  "sim_env X =
    \<lparr>requests_head = (\<lambda>u w. (head_reply X u, called (''HEAD '' @ u) w)),
     requests_get = (\<lambda>u w. (get_reply X u, called (''GET '' @ u) w)),
     requests_post = (\<lambda>u m w. (Inr \<lparr>status_code = 200, headers = Map.empty, content = ''ok''\<rparr>,
                               called (''POST '' @ m) w)),
     bytes_decode = Inr,
     re_findall = (\<lambda>p t. Inr (literal_findall p t)),
     getpeercert = (\<lambda>h w. (cert_reply X h, called (''TLS '' @ h) w)),
     strptime = sim_strptime,
     utcnow = (\<lambda>w. (clock X, w)),
     time_time = (\<lambda>w. (clock X div 1000000, w)),
     fromtimestamp = sim_fromtimestamp,
     environ = variables X,
     s3_delete = (\<lambda>c k w. (Inr (), called (''S3 delete '' @ k) (w\<lparr>s3_object := None\<rparr>))),
     s3_get = (\<lambda>c k w. (Inr (s3_object w), called (''S3 get '' @ k) w)),
     s3_put = (\<lambda>c k d w. (Inr (), called (''S3 put '' @ k) (w\<lparr>s3_object := Some d\<rparr>))),
     messages_create = (\<lambda>c b f t w. (Inr ''SM'', called (''SMS '' @ b) w))\<rparr>"

text \<open>
  The outside in which every check passes: each URL of the table answers with its
  expected code and redirect, each page holds its expected contents, and every
  certificate runs until 2030 while the clock stands at 1 January 2029.
\<close>

definition healthy :: outside where
  "healthy =
    \<lparr>head_reply = (\<lambda>u. case find (\<lambda>s. url s = u) servers of
         None \<Rightarrow> Inl (RequestException ''no such host'')
       | Some s \<Rightarrow> Inr \<lparr>status_code = code s,
                        headers = (case redirect s of None \<Rightarrow> Map.empty | Some t \<Rightarrow> [''Location'' \<mapsto> t]),
                        content = []\<rparr>),
     get_reply = (\<lambda>u. case find (\<lambda>s. url s = u) servers of
         None \<Rightarrow> Inl (RequestException ''no such host'')
       | Some s \<Rightarrow> Inr \<lparr>status_code = 200, headers = Map.empty,
                        content = (case contents s of None \<Rightarrow> [] | Some c \<Rightarrow> ''<p>'' @ c @ ''</p>'')\<rparr>),
     cert_reply = (\<lambda>h. Inr [''notAfter'' \<mapsto> ''Jan  1 00:00:00 2030 GMT'']),
     clock = 1861920000000000,
     variables = Map.empty\<rparr>"

definition start :: sim_world where
  "start = \<lparr>calls = [], s3_object = None\<rparr>"

definition no_flags :: args where
  "no_flags = \<lparr>ci = False, verbose = False, delete = False\<rparr>"

definition ci_flag :: args where
  "ci_flag = \<lparr>ci = True, verbose = False, delete = False\<rparr>"

definition credentials :: "string \<rightharpoonup> string" where
  "credentials =
     [''AWS_ACCESS_KEY_ID'' \<mapsto> ''id'', ''AWS_SECRET_ACCESS_KEY'' \<mapsto> ''secret'',
      ''S3DATA_BUCKET'' \<mapsto> ''bucket'', ''TWILIO_ACCOUNT_SID'' \<mapsto> ''sid'',
      ''TWILIO_AUTH_TOKEN'' \<mapsto> ''token'', ''TWILIO_FROM_NUMBER'' \<mapsto> ''+15550100'',
      ''TWILIO_TO_NUMBER'' \<mapsto> ''+15550101'', ''SLACK_WEBHOOK'' \<mapsto> ''https://hooks.example/T1'']"

text \<open>
  The first site of the table refuses the connection; every other site answers 500,
  so each of them would fail its check if it were probed.
\<close>

definition first_refused :: outside where
  "first_refused = healthy
    \<lparr>head_reply := (\<lambda>u. if u = ''http://www.readthedocs.org/''
                          then Inl (RequestException ''Connection refused'')
                          else Inr \<lparr>status_code = 500, headers = Map.empty, content = []\<rparr>)\<rparr>"

text \<open>All sites pass; the TLS connection to the second host times out.\<close>

definition tls_timeout :: outside where
  "tls_timeout = healthy
    \<lparr>cert_reply := (\<lambda>h. if h = ''www.python.org'' then Inl (OtherError ''timed out'')
                          else cert_reply healthy h)\<rparr>"

text \<open>
  The second site answers 404, the page of the third no longer holds its text, and
  the certificate of the second host runs out in two days.
\<close>

definition degraded :: outside where
  "degraded = healthy
    \<lparr>head_reply := (\<lambda>u. if u = ''http://readthedocs.org/''
                          then Inr \<lparr>status_code = 404, headers = Map.empty, content = []\<rparr>
                          else head_reply healthy u),
     get_reply := (\<lambda>u. if u = ''https://readthedocs.org/''
                         then Inr \<lparr>status_code = 200, headers = Map.empty, content = ''<p>Moved</p>''\<rparr>
                         else get_reply healthy u),
     cert_reply := (\<lambda>h. if h = ''www.python.org'' then Inr [''notAfter'' \<mapsto> ''Jan  3 00:00:00 2029 GMT'']
                          else cert_reply healthy h)\<rparr>"

text \<open>Single faults, for one pass of the loop body.\<close>

definition moved_elsewhere :: outside where
  "moved_elsewhere = healthy
    \<lparr>head_reply := (\<lambda>u. Inr \<lparr>status_code = 302, headers = [''Location'' \<mapsto> ''https://elsewhere.example/''],
                               content = []\<rparr>)\<rparr>"

definition no_location :: outside where
  "no_location = healthy
    \<lparr>head_reply := (\<lambda>u. Inr \<lparr>status_code = 302, headers = Map.empty, content = []\<rparr>)\<rparr>"

definition get_unavailable :: outside where
  "get_unavailable = healthy
    \<lparr>get_reply := (\<lambda>u. Inr \<lparr>status_code = 503, headers = Map.empty, content = []\<rparr>)\<rparr>"

text \<open>
  The name of the first site does not resolve, and the exception says so at the
  length such exceptions have.
\<close>

definition dns_text :: string where
  "dns_text = ''HTTPConnectionPool(host=www.readthedocs.org, port=80): Max retries exceeded with url: / (Caused by NameResolutionError: Failed to resolve www.readthedocs.org ([Errno -2] Name or service not known))''"

definition dns_error :: string where
  "dns_error = ''Fail: http://www.readthedocs.org/ exception '' @ dns_text"

definition dns_failure :: outside where
  "dns_failure = healthy
    \<lparr>head_reply := (\<lambda>u. if u = ''http://www.readthedocs.org/'' then Inl (RequestException dns_text)
                          else head_reply healthy u),
     variables := credentials\<rparr>"

section \<open>Facts about the loops\<close>

lemmas run_defs =
  check_sites_def check_sites_of_def servers_def ssl_hosts_def server_body_def ssl_body_def
  bind_io_def return_io_def raise_io_def subscript_def ssl_valid_time_remaining_def
  ssl_expiry_datetime_def ssl_date_fmt_def timedelta_def days_def str_int_def str_nat.simps
  main_def ci_mode_def should_notify_def build_msg_def Let_def

lemmas sim_defs =
  sim_env_def healthy_def start_def called_def sim_strptime_def sim_fromtimestamp_def
  no_flags_def ci_flag_def

lemma server_body_appends:
  "server_body E s errors w =
     (case server_body E s [] w of
        (Next es, w') \<Rightarrow> (Next (errors @ es), w')
      | (Break es, w') \<Rightarrow> (Break (errors @ es), w')
      | (Raise e, w') \<Rightarrow> (Raise e, w'))"
  by (simp add: server_body_def split: prod.splits sum.splits error.splits option.splits)

lemma ssl_body_appends:
  "ssl_body E s errors w =
     (case ssl_body E s [] w of
        (Inr es, w') \<Rightarrow> (Inr (errors @ es), w')
      | (Inl e, w') \<Rightarrow> (Inl e, w'))"
  by (simp add: ssl_body_def bind_io_def return_io_def split: prod.splits sum.splits)

lemma server_body_marks:
  assumes "server_body E s [] w = (f, w')" and "f = Next es \<or> f = Break es"
  shows "length es \<le> 1 \<and> (\<forall>e\<in>set es. \<exists>t. e = ''Fail: '' @ url s @ '' '' @ t)"
  using assms
  by (auto simp: server_body_def split: prod.splits sum.splits error.splits option.splits if_splits)

lemma ssl_body_marks:
  assumes "ssl_body E s [] w = (Inr es, w')"
  shows "length es \<le> 1 \<and> (\<forall>e\<in>set es. \<exists>t. e = ''Fail: SSL cert for '' @ s @ '' '' @ t)"
  using assms
  by (auto simp: ssl_body_def bind_io_def return_io_def split: prod.splits sum.splits if_splits)

lemma servers_loop_concat:
  "servers_loop E svs errors w = (Inr out, w1) \<Longrightarrow> out = errors @ concat (per_server E svs w)"
proof (induction svs arbitrary: errors w)
  case Nil
  then show ?case by simp
next
  case (Cons s rest)
  obtain f w' where b: "server_body E s [] w = (f, w')" by (cases "server_body E s [] w")
  show ?case
  proof (cases f)
    case (Next es)
    with b Cons.prems have "servers_loop E rest (errors @ es) w' = (Inr out, w1)"
      by (simp add: server_body_appends [of E s errors w])
    from Cons.IH [OF this] b Next show ?thesis by simp
  next
    case (Break es)
    with b Cons.prems show ?thesis by (simp add: server_body_appends [of E s errors w])
  next
    case (Raise e)
    with b Cons.prems show ?thesis by (simp add: server_body_appends [of E s errors w])
  qed
qed

lemma ssl_loop_concat:
  "ssl_loop E hosts errors w = (Inr out, w1) \<Longrightarrow>
     out = errors @ concat (per_host E hosts w) \<and> length (per_host E hosts w) = length hosts"
proof (induction hosts arbitrary: errors w)
  case Nil
  then show ?case by simp
next
  case (Cons s rest)
  obtain x w' where b: "ssl_body E s [] w = (x, w')" by (cases "ssl_body E s [] w")
  show ?case
  proof (cases x)
    case (Inl e)
    with b Cons.prems show ?thesis by (simp add: ssl_body_appends [of E s errors w])
  next
    case (Inr es)
    with b Cons.prems have "ssl_loop E rest (errors @ es) w' = (Inr out, w1)"
      by (simp add: ssl_body_appends [of E s errors w])
    from Cons.IH [OF this] b Inr show ?thesis by simp
  qed
qed

lemma per_server_length: "length (per_server E svs w) \<le> length svs"
  by (induction svs arbitrary: w) (auto split: prod.splits flow.splits)

lemma per_server_marks:
  "i < length (per_server E svs w) \<Longrightarrow>
     length (per_server E svs w ! i) \<le> 1 \<and>
     (\<forall>e\<in>set (per_server E svs w ! i). \<exists>t. e = ''Fail: '' @ url (svs ! i) @ '' '' @ t)"
proof (induction svs arbitrary: i w)
  case Nil
  then show ?case by simp
next
  case (Cons s rest)
  obtain f w' where b: "server_body E s [] w = (f, w')" by (cases "server_body E s [] w")
  show ?case
  proof (cases f)
    case (Next es)
    show ?thesis
    proof (cases i)
      case 0
      with b Next server_body_marks [OF b, of es] show ?thesis by simp
    next
      case (Suc j)
      with Cons.prems b Next have "j < length (per_server E rest w')" by simp
      from Cons.IH [OF this] b Next Suc show ?thesis by simp
    qed
  next
    case (Break es)
    with Cons.prems b have "i = 0" by simp
    with b Break server_body_marks [OF b, of es] show ?thesis by simp
  next
    case (Raise e)
    with Cons.prems b show ?thesis by simp
  qed
qed

lemma per_host_marks:
  "i < length (per_host E hosts w) \<Longrightarrow>
     length (per_host E hosts w ! i) \<le> 1 \<and>
     (\<forall>e\<in>set (per_host E hosts w ! i). \<exists>t. e = ''Fail: SSL cert for '' @ hosts ! i @ '' '' @ t)"
proof (induction hosts arbitrary: i w)
  case Nil
  then show ?case by simp
next
  case (Cons s rest)
  obtain x w' where b: "ssl_body E s [] w = (x, w')" by (cases "ssl_body E s [] w")
  show ?case
  proof (cases x)
    case (Inl e)
    with Cons.prems b show ?thesis by simp
  next
    case (Inr es)
    show ?thesis
    proof (cases i)
      case 0
      with b Inr ssl_body_marks [of E s w es w'] show ?thesis by simp
    next
      case (Suc j)
      with Cons.prems b Inr have "j < length (per_host E rest w')" by simp
      from Cons.IH [OF this] b Inr Suc show ?thesis by simp
    qed
  qed
qed

lemma str_int_200: "str_int 200 = ''200''"
  by (simp add: str_int_def str_nat.simps)

lemma main_exit_code:
  "main E a w = (Inr rc, w') \<Longrightarrow> \<exists>errors w1. check_sites E w = (Inr errors, w1) \<and> rc = int (length errors)"
  by (auto simp: main_def bind_io_def return_io_def Let_def split: prod.splits sum.splits)

section \<open>The claims\<close>

subsection \<open>C1: a network failure while probing one site\<close>

text \<open>
  What the loop does for every list: a RequestException from the HEAD request adds
  one error for that site and leaves the loop, so the sites after it are not probed.
\<close>

lemma request_exception_leaves_loop:
  assumes "requests_head E (url s) w = (Inl (RequestException e), w1)"
  shows "servers_loop E (s # rest) errors w =
           (Inr (errors @ [''Fail: '' @ url s @ '' exception '' @ e]), w1)"
  using assms by (simp add: server_body_def)

text \<open>
  Claim C1 says that a network failure on one site yields exactly one error for that
  site and skips only that site's remaining checks, the sites after it still being
  evaluated. The theorem runs \<open>check_sites\<close> where the first site of the table
  refuses the connection and every other site answers 500: the result holds the one
  error of the first site and nothing else, the only HEAD request made is the
  first, and the certificate checks follow at once. The second site, probed on its
  own in the same outside, does report an error, so the run has lost it.
\<close>

theorem first_refused_run:
  "check_sites (sim_env first_refused) start =
     (Inr [''Fail: http://www.readthedocs.org/ exception Connection refused''],
      \<lparr>calls = [''HEAD http://www.readthedocs.org/'', ''TLS readthedocs.org'',
                 ''TLS www.python.org'', ''TLS www.thunderbird.net''],
       s3_object = None\<rparr>) \<and>
   fst (server_body (sim_env first_refused) (servers ! 1) [] start) =
     Next [''Fail: http://readthedocs.org/ expected response code 302 received 500'']"
  by (simp add: run_defs sim_defs first_refused_def)

subsection \<open>C2: the notification decision\<close>

text \<open>
  Claim C2: the condition of line 188 is true if and only if nothing was stored by
  an earlier run, or the current run has errors, or the stored error count is not
  zero while the current run has none; it is false exactly when a result is stored
  with error count zero and the current run has no errors. The current error count is
  the length of \<open>errors\<close>.
\<close>

theorem should_notify_iff:
  "(should_notify prior errors \<longleftrightarrow>
      (prior = None \<or> 0 < length errors \<or>
       (\<exists>d. prior = Some d \<and> results d \<noteq> 0 \<and> length errors = 0))) \<and>
   (\<not> should_notify prior errors \<longleftrightarrow>
      (\<exists>d. prior = Some d \<and> results d = 0 \<and> length errors = 0))"
  by (cases prior) (auto simp: should_notify_def)

theorem should_notify_iff_witness:
  "should_notify None [] \<and>
   should_notify (Some \<lparr>lastRun = 1861920000, version = 1, results = 2, errors_key = [''a'', ''b'']\<rparr>) [] \<and>
   should_notify (Some \<lparr>lastRun = 1861920000, version = 1, results = 2, errors_key = [''a'', ''b'']\<rparr>) [''a''] \<and>
   should_notify (Some \<lparr>lastRun = 1861920000, version = 1, results = 0, errors_key = []\<rparr>) [''a''] \<and>
   \<not> should_notify (Some \<lparr>lastRun = 1861920000, version = 1, results = 0, errors_key = []\<rparr>) []"
  using should_notify_iff [of None "[]"]
    should_notify_iff [of "Some \<lparr>lastRun = 1861920000, version = 1, results = 2, errors_key = [''a'', ''b'']\<rparr>" "[]"]
    should_notify_iff [of "Some \<lparr>lastRun = 1861920000, version = 1, results = 2, errors_key = [''a'', ''b'']\<rparr>" "[''a'']"]
    should_notify_iff [of "Some \<lparr>lastRun = 1861920000, version = 1, results = 0, errors_key = []\<rparr>" "[''a'']"]
    should_notify_iff [of "Some \<lparr>lastRun = 1861920000, version = 1, results = 0, errors_key = []\<rparr>" "[]"]
  by simp

subsection \<open>C3: the certificate thresholds\<close>

text \<open>
  Claim C3: for every host whose remaining validity the inspector returns, a
  remaining validity below zero adds the error "already expired"; one from zero up
  to, but excluding, three days adds the error "expiring in d days", where \<open>d\<close> is the
  whole number of days remaining (0, 1 or 2); one of three days or more adds no
  error.
\<close>

theorem ssl_thresholds:
  assumes "ssl_valid_time_remaining E s w = (Inr remaining, w1)"
  shows "(remaining < 0 \<longrightarrow>
            ssl_body E s errors w =
              (Inr (errors @ [''Fail: SSL cert for '' @ s @ '' already expired!'']), w1)) \<and>
         (0 \<le> remaining \<and> remaining < timedelta 3 \<longrightarrow>
            ssl_body E s errors w =
              (Inr (errors @ [''Fail: SSL cert for '' @ s @ '' expiring in ''
                              @ str_int (days remaining) @ '' days'']), w1) \<and>
            0 \<le> days remaining \<and> days remaining \<le> 2 \<and>
            timedelta (days remaining) \<le> remaining \<and> remaining < timedelta (days remaining + 1)) \<and>
         (timedelta 3 \<le> remaining \<longrightarrow> ssl_body E s errors w = (Inr errors, w1))"
  using assms
  by (auto simp: ssl_body_def bind_io_def return_io_def timedelta_def days_def)

theorem ssl_thresholds_witness:
  "ssl_body (sim_env (healthy\<lparr>clock := 1893456001000000\<rparr>)) ''readthedocs.org'' [] start =
     (Inr [''Fail: SSL cert for readthedocs.org already expired!''], called ''TLS readthedocs.org'' start) \<and>
   ssl_body (sim_env (healthy\<lparr>clock := 1893456000000000\<rparr>)) ''readthedocs.org'' [] start =
     (Inr [''Fail: SSL cert for readthedocs.org expiring in 0 days''], called ''TLS readthedocs.org'' start) \<and>
   ssl_body (sim_env (healthy\<lparr>clock := 1893196800000001\<rparr>)) ''readthedocs.org'' [] start =
     (Inr [''Fail: SSL cert for readthedocs.org expiring in 2 days''], called ''TLS readthedocs.org'' start) \<and>
   ssl_body (sim_env (healthy\<lparr>clock := 1893196800000000\<rparr>)) ''readthedocs.org'' [] start =
     (Inr [], called ''TLS readthedocs.org'' start)"
  using
    ssl_thresholds [of "sim_env (healthy\<lparr>clock := 1893456001000000\<rparr>)" "''readthedocs.org''" start
      "- 1000000" "called ''TLS readthedocs.org'' start" "[]"]
    ssl_thresholds [of "sim_env (healthy\<lparr>clock := 1893456000000000\<rparr>)" "''readthedocs.org''" start
      "0" "called ''TLS readthedocs.org'' start" "[]"]
    ssl_thresholds [of "sim_env (healthy\<lparr>clock := 1893196800000001\<rparr>)" "''readthedocs.org''" start
      "259199999999" "called ''TLS readthedocs.org'' start" "[]"]
    ssl_thresholds [of "sim_env (healthy\<lparr>clock := 1893196800000000\<rparr>)" "''readthedocs.org''" start
      "259200000000" "called ''TLS readthedocs.org'' start" "[]"]
  by (simp add: sim_env_def healthy_def sim_strptime_def ssl_valid_time_remaining_def
      ssl_expiry_datetime_def ssl_date_fmt_def bind_io_def return_io_def raise_io_def
      subscript_def timedelta_def days_def str_int_def str_nat.simps)

subsection \<open>C4: the redirect check\<close>

text \<open>
  Claim C4: for a site whose expected code is 301 or 302, when the HEAD response
  has the expected code and a Location header, a Location that differs from the
  expected redirect adds exactly one error, which names the expected and the
  received target, and a Location equal to it adds none.
\<close>

theorem redirect_check:
  assumes "requests_head E (url s) w = (Inr r, w1)"
    and "code s = 301 \<or> code s = 302"
    and "status_code r = code s"
    and "headers r ''Location'' = Some location"
    and "redirect s = Some expected"
  shows "(location \<noteq> expected \<longrightarrow>
            server_body E s errors w =
              (Next (errors @ [''Fail: '' @ url s @ '' expected redirect '' @ expected
                               @ '' received '' @ location]), w1)) \<and>
         (location = expected \<longrightarrow> server_body E s errors w = (Next errors, w1))"
  using assms by (auto simp: server_body_def)

theorem redirect_check_witness:
  "server_body (sim_env moved_elsewhere) (hd servers) [] start =
     (Next [''Fail: http://www.readthedocs.org/ expected redirect http://readthedocs.org/ received https://elsewhere.example/''],
      called ''HEAD http://www.readthedocs.org/'' start) \<and>
   server_body (sim_env healthy) (hd servers) [] start =
     (Next [], called ''HEAD http://www.readthedocs.org/'' start)"
  using
    redirect_check [of "sim_env moved_elsewhere" "hd servers" start
      "\<lparr>status_code = 302, headers = [''Location'' \<mapsto> ''https://elsewhere.example/''], content = []\<rparr>"
      "called ''HEAD http://www.readthedocs.org/'' start"
      "''https://elsewhere.example/''" "''http://readthedocs.org/''" "[]"]
    redirect_check [of "sim_env healthy" "hd servers" start
      "\<lparr>status_code = 302, headers = [''Location'' \<mapsto> ''http://readthedocs.org/''], content = []\<rparr>"
      "called ''HEAD http://www.readthedocs.org/'' start"
      "''http://readthedocs.org/''" "''http://readthedocs.org/''" "[]"]
  by (simp add: sim_env_def moved_elsewhere_def healthy_def servers_def)

subsection \<open>C5: the contents check\<close>

text \<open>
  Claim C5: for a site whose expected code is 200, when the HEAD response has code
  200, the GET that follows returns 200 and the body decodes, a search of the decoded
  body for the expected contents that finds nothing adds exactly one error, which
  names the missing contents, and a search that finds a match adds none.
\<close>

theorem contents_check:
  assumes "requests_head E (url s) w = (Inr r, w1)"
    and "code s = 200"
    and "status_code r = code s"
    and "requests_get E (url s) w1 = (Inr r2, w2)"
    and "status_code r2 = 200"
    and "contents s = Some pattern"
    and "bytes_decode E (content r2) = Inr decoded"
    and "re_findall E pattern decoded = Inr matches"
  shows "(matches = [] \<longrightarrow>
            server_body E s errors w =
              (Next (errors @ [''Fail: '' @ url s @ '' expected contents '' @ pattern]), w2)) \<and>
         (matches \<noteq> [] \<longrightarrow> server_body E s errors w = (Next errors, w2))"
  using assms by (auto simp: server_body_def)

theorem contents_check_witness:
  "server_body (sim_env degraded) (servers ! 2) [] start =
     (Next [''Fail: https://readthedocs.org/ expected contents Technical documentation lives here''],
      called ''GET https://readthedocs.org/'' (called ''HEAD https://readthedocs.org/'' start)) \<and>
   server_body (sim_env healthy) (servers ! 2) [] start =
     (Next [], called ''GET https://readthedocs.org/'' (called ''HEAD https://readthedocs.org/'' start))"
  using
    contents_check [of "sim_env degraded" "servers ! 2" start
      "\<lparr>status_code = 200, headers = Map.empty, content = []\<rparr>"
      "called ''HEAD https://readthedocs.org/'' start"
      "\<lparr>status_code = 200, headers = Map.empty, content = ''<p>Moved</p>''\<rparr>"
      "called ''GET https://readthedocs.org/'' (called ''HEAD https://readthedocs.org/'' start)"
      "''Technical documentation lives here''" "''<p>Moved</p>''" "[]" "[]"]
    contents_check [of "sim_env healthy" "servers ! 2" start
      "\<lparr>status_code = 200, headers = Map.empty, content = []\<rparr>"
      "called ''HEAD https://readthedocs.org/'' start"
      "\<lparr>status_code = 200, headers = Map.empty, content = ''<p>Technical documentation lives here</p>''\<rparr>"
      "called ''GET https://readthedocs.org/'' (called ''HEAD https://readthedocs.org/'' start)"
      "''Technical documentation lives here''" "''<p>Technical documentation lives here</p>''"
      "[''Technical documentation lives here'']" "[]"]
  by (simp add: sim_env_def degraded_def healthy_def servers_def)

subsection \<open>C6: HEAD says 200 and GET does not\<close>

text \<open>
  Claim C6: when the HEAD response has the expected code 200 and the GET that
  follows returns another code, the pass raises the exception of line 95 and adds no
  error; the loop and \<open>check_sites\<close> end with that exception whatever errors were
  gathered before, so no list is returned; and \<open>main\<close> ends with any exception that
  \<open>check_sites\<close> raises, without reaching \<open>sys.exit\<close>.
\<close>

theorem get_not_200_fatal:
  assumes "requests_head E (url s) w = (Inr r, w1)"
    and "code s = 200"
    and "status_code r = code s"
    and "requests_get E (url s) w1 = (Inr r2, w2)"
    and "status_code r2 \<noteq> 200"
  shows "server_body E s errors w =
           (Raise (Exception (''unexpected http response code 200 from get '' @ url s)), w2) \<and>
         servers_loop E (s # rest) errors w =
           (Inl (Exception (''unexpected http response code 200 from get '' @ url s)), w2) \<and>
         check_sites_of E (s # rest) hosts w =
           (Inl (Exception (''unexpected http response code 200 from get '' @ url s)), w2) \<and>
         (\<forall>e w0 w' a. check_sites E w0 = (Inl e, w') \<longrightarrow> main E a w0 = (Inl e, w'))"
  using assms by (auto simp: server_body_def str_int_200 check_sites_of_def bind_io_def main_def)

theorem get_not_200_fatal_witness:
  "servers_loop (sim_env get_unavailable) (drop 2 servers) [''an earlier error''] start =
     (Inl (Exception ''unexpected http response code 200 from get https://readthedocs.org/''),
      called ''GET https://readthedocs.org/'' (called ''HEAD https://readthedocs.org/'' start)) \<and>
   fst (main (sim_env get_unavailable) no_flags start) =
     Inl (Exception ''unexpected http response code 200 from get https://readthedocs.org/'')"
  using
    get_not_200_fatal [of "sim_env get_unavailable" "servers ! 2" start
      "\<lparr>status_code = 200, headers = Map.empty, content = []\<rparr>"
      "called ''HEAD https://readthedocs.org/'' start"
      "\<lparr>status_code = 503, headers = Map.empty, content = []\<rparr>"
      "called ''GET https://readthedocs.org/'' (called ''HEAD https://readthedocs.org/'' start)"
      "[''an earlier error'']" "drop 3 servers" ssl_hosts]
  by (simp add: run_defs sim_defs get_unavailable_def)

subsection \<open>C7: a TLS failure during certificate inspection\<close>

text \<open>
  What the loop over the hosts does for every list: an exception of the inspector
  ends the loop with that exception.
\<close>

lemma inspector_exception_ends_run:
  assumes "ssl_valid_time_remaining E s w = (Inl e, w1)"
  shows "ssl_loop E (s # rest) errors w = (Inl e, w1)"
  using assms by (simp add: ssl_body_def bind_io_def)

text \<open>
  Claim C7 says that a TLS failure for one host becomes one error for that host and
  the run goes on with the hosts that remain. The theorem runs the program where
  every site passes and the connection to the second host times out:
  \<open>check_sites\<close> returns no list but ends with the exception, \<open>main\<close> ends with it as
  well, in CI mode before anything is stored or sent (the world it leaves is the one
  \<open>check_sites\<close> left, after 12 requests to the sites and 2 TLS connections), and the
  third host is never inspected.
\<close>

theorem tls_timeout_run:
  "fst (check_sites (sim_env tls_timeout) start) = Inl (OtherError ''timed out'') \<and>
   ''TLS www.python.org'' \<in> set (calls (snd (check_sites (sim_env tls_timeout) start))) \<and>
   ''TLS www.thunderbird.net'' \<notin> set (calls (snd (check_sites (sim_env tls_timeout) start))) \<and>
   fst (main (sim_env tls_timeout) ci_flag start) = Inl (OtherError ''timed out'') \<and>
   s3_object (snd (main (sim_env tls_timeout) ci_flag start)) = None \<and>
   snd (main (sim_env tls_timeout) ci_flag start) = snd (check_sites (sim_env tls_timeout) start) \<and>
   length (calls (snd (main (sim_env tls_timeout) ci_flag start))) = 14"
  by (simp add: run_defs sim_defs tls_timeout_def)

subsection \<open>C8: the order of the errors and the exit code\<close>

text \<open>
  Claim C8: whenever \<open>check_sites\<close> returns a list, the list is the errors of the
  sites, in the order of the table and at most one per site, each beginning with the
  URL of its site, followed by the errors of the hosts, in the order of their table
  and at most one per host, each naming its host; and whenever \<open>main\<close> leaves through
  \<open>sys.exit\<close>, its argument is the length of the list \<open>check_sites\<close> returned.
\<close>

theorem errors_in_input_order:
  "(check_sites_of E svs hosts w = (Inr errors, w') \<longrightarrow>
      (\<exists>w1. servers_loop E svs [] w = (Inr (concat (per_server E svs w)), w1) \<and>
            errors = concat (per_server E svs w) @ concat (per_host E hosts w1) \<and>
            length (per_server E svs w) \<le> length svs \<and>
            length (per_host E hosts w1) = length hosts \<and>
            (\<forall>i<length (per_server E svs w).
               length (per_server E svs w ! i) \<le> 1 \<and>
               (\<forall>e\<in>set (per_server E svs w ! i). \<exists>t. e = ''Fail: '' @ url (svs ! i) @ '' '' @ t)) \<and>
            (\<forall>i<length hosts.
               length (per_host E hosts w1 ! i) \<le> 1 \<and>
               (\<forall>e\<in>set (per_host E hosts w1 ! i).
                  \<exists>t. e = ''Fail: SSL cert for '' @ hosts ! i @ '' '' @ t)))) \<and>
   (main E a w = (Inr rc, w'') \<longrightarrow>
      (\<exists>errors w1. check_sites E w = (Inr errors, w1) \<and> rc = int (length errors)))"
proof (intro conjI impI)
  assume run: "check_sites_of E svs hosts w = (Inr errors, w')"
  then obtain mid w1 where sv: "servers_loop E svs [] w = (Inr mid, w1)"
    and tls: "ssl_loop E hosts mid w1 = (Inr errors, w')"
    by (auto simp: check_sites_of_def bind_io_def split: prod.splits sum.splits)
  from servers_loop_concat [OF sv] have mid: "mid = concat (per_server E svs w)" by simp
  from ssl_loop_concat [OF tls] have out: "errors = mid @ concat (per_host E hosts w1)"
    and len: "length (per_host E hosts w1) = length hosts" by simp_all
  show "\<exists>w1. servers_loop E svs [] w = (Inr (concat (per_server E svs w)), w1) \<and>
            errors = concat (per_server E svs w) @ concat (per_host E hosts w1) \<and>
            length (per_server E svs w) \<le> length svs \<and>
            length (per_host E hosts w1) = length hosts \<and>
            (\<forall>i<length (per_server E svs w).
               length (per_server E svs w ! i) \<le> 1 \<and>
               (\<forall>e\<in>set (per_server E svs w ! i). \<exists>t. e = ''Fail: '' @ url (svs ! i) @ '' '' @ t)) \<and>
            (\<forall>i<length hosts.
               length (per_host E hosts w1 ! i) \<le> 1 \<and>
               (\<forall>e\<in>set (per_host E hosts w1 ! i).
                  \<exists>t. e = ''Fail: SSL cert for '' @ hosts ! i @ '' '' @ t))"
  proof (intro exI [of _ w1] conjI allI impI)
    show "servers_loop E svs [] w = (Inr (concat (per_server E svs w)), w1)"
      using sv mid by simp
    show "errors = concat (per_server E svs w) @ concat (per_host E hosts w1)"
      using out mid by simp
    show "length (per_server E svs w) \<le> length svs" by (rule per_server_length)
    show "length (per_host E hosts w1) = length hosts" by (rule len)
  next
    fix i assume "i < length (per_server E svs w)"
    from per_server_marks [OF this]
    show "length (per_server E svs w ! i) \<le> 1"
      and "\<forall>e\<in>set (per_server E svs w ! i). \<exists>t. e = ''Fail: '' @ url (svs ! i) @ '' '' @ t"
      by simp_all
  next
    fix i assume "i < length hosts"
    with len have "i < length (per_host E hosts w1)" by simp
    from per_host_marks [OF this]
    show "length (per_host E hosts w1 ! i) \<le> 1"
      and "\<forall>e\<in>set (per_host E hosts w1 ! i). \<exists>t. e = ''Fail: SSL cert for '' @ hosts ! i @ '' '' @ t"
      by simp_all
  qed
next
  assume "main E a w = (Inr rc, w'')"
  then show "\<exists>errors w1. check_sites E w = (Inr errors, w1) \<and> rc = int (length errors)"
    by (rule main_exit_code)
qed

theorem errors_in_input_order_witness:
  "check_sites_of (sim_env degraded) servers ssl_hosts start =
     (Inr [''Fail: http://readthedocs.org/ expected response code 302 received 404'',
           ''Fail: https://readthedocs.org/ expected contents Technical documentation lives here'',
           ''Fail: SSL cert for www.python.org expiring in 2 days''],
      snd (check_sites (sim_env degraded) start)) \<and>
   concat (per_server (sim_env degraded) servers start) =
     [''Fail: http://readthedocs.org/ expected response code 302 received 404'',
      ''Fail: https://readthedocs.org/ expected contents Technical documentation lives here''] \<and>
   main (sim_env degraded) no_flags start = (Inr 3, snd (check_sites (sim_env degraded) start))"
  using errors_in_input_order [of "sim_env degraded" servers ssl_hosts start
      "[''Fail: http://readthedocs.org/ expected response code 302 received 404'',
        ''Fail: https://readthedocs.org/ expected contents Technical documentation lives here'',
        ''Fail: SSL cert for www.python.org expiring in 2 days'']"
      "snd (check_sites (sim_env degraded) start)" no_flags 3
      "snd (check_sites (sim_env degraded) start)"]
  by (simp add: run_defs sim_defs degraded_def)

subsection \<open>C9: the messages of a notification\<close>

lemma foldl_append_each: "foldl (\<lambda>msg e. msg @ [e]) acc es = acc @ es"
  by (induction es arbitrary: acc) simp_all

text \<open>
  What lines 190 to 196 build for every list with errors: a header, then each error
  as a message of its own. So every message after the header is within 160
  characters where every error is, which is as far as the block goes "to get around
  Twilio 160 char limit" (line 189).
\<close>

lemma build_msg_one_per_error:
  assumes "rc \<noteq> 0"
  shows "build_msg rc errors = (''Sitecheck '' @ str_int rc @ '' Errors:'') # errors"
  using assms by (simp add: build_msg_def foldl_append_each)

lemma short_errors_fit:
  assumes "rc \<noteq> 0" and "\<forall>e\<in>set errors. length e \<le> 160"
  shows "\<forall>m\<in>set (tl (build_msg rc errors)). length m \<le> 160"
  using assms by (simp add: build_msg_one_per_error)

text \<open>
  Claim C9 says that when the text of the errors is longer than 160 characters the
  notification is sent as several messages, each within 160 characters, that together
  hold all the error text in order. The theorem runs the program in CI mode where
  the name of the first site does not resolve: \<open>check_sites\<close> returns one error of 241
  characters, the messages built are the header and that error, and the error is
  handed to the SMS client whole, as one message of more than 160 characters.
\<close>

theorem long_error_sent_whole:
  "fst (check_sites (sim_env dns_failure) start) = Inr [dns_error] \<and>
   160 < length (concat [dns_error]) \<and>
   build_msg (int (length [dns_error])) [dns_error] = [''Sitecheck 1 Errors:'', dns_error] \<and>
   ''SMS '' @ dns_error \<in> set (calls (snd (main (sim_env dns_failure) ci_flag start))) \<and>
   length dns_error = 241 \<and>
   \<not> length dns_error \<le> 160"
  by (simp add: run_defs sim_defs dns_failure_def dns_error_def dns_text_def credentials_def)

subsection \<open>C10: the Location header is read without a check\<close>

text \<open>
  Claim C10: for a site whose expected code is 301 or 302, once the HEAD response
  has the expected code the pass reads the Location header; when the response has
  none, the pass raises KeyError and adds no error, and the loop ends with that
  exception. The pass raises this KeyError exactly when the header is absent.
\<close>

theorem location_required:
  assumes "requests_head E (url s) w = (Inr r, w1)"
    and "code s = 301 \<or> code s = 302"
    and "status_code r = code s"
  shows "(headers r ''Location'' = None \<longrightarrow>
            server_body E s errors w = (Raise (KeyError ''Location''), w1) \<and>
            servers_loop E (s # rest) errors w = (Inl (KeyError ''Location''), w1)) \<and>
         (fst (server_body E s errors w) = Raise (KeyError ''Location'')
            \<longleftrightarrow> headers r ''Location'' = None)"
  using assms by (auto simp: server_body_def split: option.splits)

theorem location_required_witness:
  "server_body (sim_env no_location) (hd servers) [] start =
     (Raise (KeyError ''Location''), called ''HEAD http://www.readthedocs.org/'' start) \<and>
   servers_loop (sim_env no_location) servers [] start =
     (Inl (KeyError ''Location''), called ''HEAD http://www.readthedocs.org/'' start) \<and>
   fst (server_body (sim_env healthy) (hd servers) [] start) \<noteq> Raise (KeyError ''Location'')"
  using
    location_required [of "sim_env no_location" "hd servers" start
      "\<lparr>status_code = 302, headers = Map.empty, content = []\<rparr>"
      "called ''HEAD http://www.readthedocs.org/'' start" "[]" "tl servers"]
    location_required [of "sim_env healthy" "hd servers" start
      "\<lparr>status_code = 302, headers = [''Location'' \<mapsto> ''http://readthedocs.org/''], content = []\<rparr>"
      "called ''HEAD http://www.readthedocs.org/'' start" "[]" "tl servers"]
  by (simp add: sim_env_def no_location_def healthy_def servers_def)

end
